theory Spec2Isabelle
  imports Main
begin

section \<open>Python values\<close>

text \<open>
  The values that \<open>response.json()\<close> produces and that the tool handlers return: Python's
  \<open>None\<close>, \<open>bool\<close>, \<open>int\<close>, \<open>float\<close>, \<open>str\<close>, \<open>list\<close> and \<open>dict\<close>. A \<open>dict\<close> is
  its items in insertion order (keys of a parsed JSON object are pairwise distinct). A \<open>float\<close>
  is named by its Python \<open>repr\<close> (\<open>1.5\<close>, \<open>0.0\<close>, \<open>-0.0\<close>, \<open>1e+22\<close>, \<open>inf\<close>), which
  identifies it. A \<open>str\<close> is a list of code points below 256.
\<close>

datatype jvalue =
    JNull
  | JBool bool
  | JInt int
  | JFloat string
  | JStr string
  | JArr "jvalue list"
  | JObj "(string \<times> jvalue) list"

text \<open>Python's truth value of an object, as \<open>or\<close> tests it.\<close>

fun truthy :: "jvalue \<Rightarrow> bool" where
  "truthy JNull = False"
| "truthy (JBool b) = b"
| "truthy (JInt i) = (i \<noteq> 0)"
| "truthy (JFloat r) = (r \<noteq> ''0.0'' \<and> r \<noteq> ''-0.0'')"
| "truthy (JStr s) = (s \<noteq> [])"
| "truthy (JArr xs) = (xs \<noteq> [])"
| "truthy (JObj kvs) = (kvs \<noteq> [])"

fun type_name :: "jvalue \<Rightarrow> string" where
  "type_name JNull = ''NoneType''"
| "type_name (JBool b) = ''bool''"
| "type_name (JInt i) = ''int''"
| "type_name (JFloat r) = ''float''"
| "type_name (JStr s) = ''str''"
| "type_name (JArr xs) = ''list''"
| "type_name (JObj kvs) = ''dict''"

subsection \<open>\<open>str\<close> and \<open>repr\<close>\<close>

definition digit_char :: "nat \<Rightarrow> char" where
  "digit_char d = ''0123456789abcdef'' ! (d mod 16)"

function str_nat :: "nat \<Rightarrow> string" where
  "str_nat n = (if n < 10 then [digit_char n] else str_nat (n div 10) @ [digit_char (n mod 10)])"
  by pat_completeness auto
termination
  by (relation "measure id") auto

declare str_nat.simps [simp del]

definition str_int :: "int \<Rightarrow> string" where
  "str_int i = (if i < 0 then ''-'' @ str_nat (nat (- i)) else str_nat (nat i))"

text \<open>
  \<open>repr\<close> of a \<open>str\<close>: double quotes when the string has a single quote and no double quote,
  single quotes otherwise; the quote and the backslash escaped, tab, newline and carriage
  return by letter, every other non-printable code point as \<open>\xNN\<close>.
\<close>

definition printable :: "char \<Rightarrow> bool" where
  "printable c = (let n = (of_char c :: nat) in (32 \<le> n \<and> n < 127) \<or> (161 \<le> n \<and> n \<noteq> 173))"

definition repr_char :: "char \<Rightarrow> char \<Rightarrow> string" where
  "repr_char q c =
     (if c = q \<or> c = CHR 0x5C then [CHR 0x5C, c]
      else if c = CHR 0x09 then [CHR 0x5C, CHR ''t'']
      else if c = CHR 0x0A then [CHR 0x5C, CHR ''n'']
      else if c = CHR 0x0D then [CHR 0x5C, CHR ''r'']
      else if printable c then [c]
      else [CHR 0x5C, CHR ''x'', digit_char (of_char c div 16), digit_char (of_char c mod 16)])"

definition repr_str :: "string \<Rightarrow> string" where
  "repr_str s =
     (let q = (if CHR 0x27 \<in> set s \<and> CHR 0x22 \<notin> set s then CHR 0x22 else CHR 0x27)
      in [q] @ concat (map (repr_char q) s) @ [q])"

fun join :: "string \<Rightarrow> string list \<Rightarrow> string" where
  "join sep [] = []"
| "join sep [x] = x"
| "join sep (x # y # ys) = x @ sep @ join sep (y # ys)"

fun py_repr :: "jvalue \<Rightarrow> string" where
  "py_repr JNull = ''None''"
| "py_repr (JBool b) = (if b then ''True'' else ''False'')"
| "py_repr (JInt i) = str_int i"
| "py_repr (JFloat r) = r"
| "py_repr (JStr s) = repr_str s"
| "py_repr (JArr xs) = ''['' @ join '', '' (map py_repr xs) @ '']''"
| "py_repr (JObj kvs) =
     ''{'' @ join '', '' (map (\<lambda>(k, v). repr_str k @ '': '' @ py_repr v) kvs) @ ''}''"

text \<open>\<open>str(v)\<close>, which is also what an f-string field \<open>{v}\<close> renders.\<close>

fun py_str :: "jvalue \<Rightarrow> string" where
  "py_str (JStr s) = s"
| "py_str v = py_repr v"

subsection \<open>Exceptions\<close>

text \<open>
  One constructor for each way the server module raises. \<open>ConnectError\<close> and \<open>ApiError\<close>
  are the two \<open>raise Exception(...)\<close> of \<open>mailchimp_request\<close>; \<open>ConnectError e\<close> carries
  \<open>str(e)\<close> of the caught \<open>requests.RequestException\<close>, \<open>ApiError status error_detail\<close>
  the two values its f-string interpolates. The others are raised by the interpreter and
  caught nowhere in the module: \<open>AttributeError t a\<close> by \<open>x.a\<close> on an object of type \<open>t\<close>
  without that attribute, \<open>TypeError t\<close> by iterating over an object of a type \<open>t\<close> that is
  not iterable, \<open>JSONDecodeError\<close> (a \<open>ValueError\<close>) by \<open>response.json()\<close> on a body that
  is not JSON.
\<close>

datatype error =
    ConnectError string
  | ApiError int jvalue
  | AttributeError string string
  | TypeError string
  | JSONDecodeError

text \<open>\<open>str(exc)\<close>: the message of the exception (that of \<open>JSONDecodeError\<close> is not modelled).\<close>

fun message :: "error \<Rightarrow> string" where
  "message (ConnectError e) = ''Failed to connect to Mailchimp API: '' @ e"
| "message (ApiError status error_detail) =
     ''Mailchimp API error '' @ str_int status @ '': '' @ py_str error_detail"
| "message (AttributeError t a) =
     [CHR 0x27] @ t @ [CHR 0x27] @ '' object has no attribute '' @ [CHR 0x27] @ a @ [CHR 0x27]"
| "message (TypeError t) = [CHR 0x27] @ t @ [CHR 0x27] @ '' object is not iterable''"
| "message JSONDecodeError = []"

definition bind_result :: "error + 'a \<Rightarrow> ('a \<Rightarrow> error + 'b) \<Rightarrow> error + 'b" where
  "bind_result m f = (case m of Inl e \<Rightarrow> Inl e | Inr x \<Rightarrow> f x)"

text \<open>\<open>obj.get(key, default)\<close>: only a \<open>dict\<close> has the method.\<close>

fun py_get :: "jvalue \<Rightarrow> string \<Rightarrow> jvalue \<Rightarrow> error + jvalue" where
  "py_get (JObj kvs) k d = Inr (case map_of kvs k of None \<Rightarrow> d | Some v \<Rightarrow> v)"
| "py_get v k d = Inl (AttributeError (type_name v) ''get'')"

text \<open>
  The items a \<open>for\<close> loop draws from an object: the elements of a \<open>list\<close>, the keys of a
  \<open>dict\<close>, the one-character strings of a \<open>str\<close>.
\<close>

fun py_iter :: "jvalue \<Rightarrow> error + jvalue list" where
  "py_iter (JArr xs) = Inr xs"
| "py_iter (JObj kvs) = Inr (map (\<lambda>kv. JStr (fst kv)) kvs)"
| "py_iter (JStr s) = Inr (map (\<lambda>c. JStr [c]) s)"
| "py_iter v = Inl (TypeError (type_name v))"

section \<open>Configuration\<close>

record config =
  MAILCHIMP_API_KEY :: string
  MAILCHIMP_DC :: string

definition environ_get :: "(string \<rightharpoonup> string) \<Rightarrow> string \<Rightarrow> string \<Rightarrow> string" where
  "environ_get environ k d = (case environ k of None \<Rightarrow> d | Some v \<Rightarrow> v)"

text \<open>\<open>s.split(sep)\<close> for a one-character separator: never an empty list.\<close>

fun split :: "char \<Rightarrow> string \<Rightarrow> string list" where
  "split sep [] = [[]]"
| "split sep (c # cs) =
     (if c = sep then [] # split sep cs
      else (case split sep cs of [] \<Rightarrow> [[c]] | w # ws \<Rightarrow> (c # w) # ws))"

text \<open>The module's top-level statements, lines 10 to 15, run on the process environment.\<close>

definition load_config :: "(string \<rightharpoonup> string) \<Rightarrow> config" where
  "load_config environ =
     (let key = environ_get environ ''MAILCHIMP_API_KEY'' ''<YOUR_API_KEY>'';
          dc = environ_get environ ''MAILCHIMP_DC'' ''<YOUR_DC>''
      in \<lparr>MAILCHIMP_API_KEY = key,
          MAILCHIMP_DC = (if dc = ''<YOUR_DC>'' \<and> key \<noteq> [] \<and> CHR ''-'' \<in> set key
                          then last (split (CHR ''-'') key) else dc)\<rparr>)"

definition BASE_URL :: "config \<Rightarrow> string" where
  "BASE_URL cfg = ''https://'' @ MAILCHIMP_DC cfg @ ''.api.mailchimp.com/3.0''"

section \<open>The outbound HTTP call\<close>

text \<open>
  \<open>requests.request(method, url, auth=auth, **kwargs)\<close>; the only keyword argument a handler
  passes is \<open>json=payload\<close>. It raises a \<open>RequestException\<close> or returns a response, of which
  the module reads \<open>status_code\<close>, \<open>text\<close> and \<open>json()\<close> (\<open>None\<close> when \<open>json()\<close> raises
  its \<open>ValueError\<close>). The upstream decides the outcome from the requests made so far and
  the request at hand; every request made is appended to the log.
\<close>

record http_request =
  "method" :: string
  url :: string
  auth :: "string \<times> string"
  payload :: "jvalue option"

record response =
  status_code :: int
  "text" :: string
  json :: "jvalue option"

datatype outcome = RequestException string | Response response

type_synonym upstream = "http_request list \<Rightarrow> http_request \<Rightarrow> outcome"

text \<open>
  Lines 34 to 40: \<open>err_json.get("detail") or err_json.get("title") or str(err_json)\<close>, and
  \<open>response.text or "Unknown error"\<close> when the body is not JSON.
\<close>

definition error_detail :: "response \<Rightarrow> error + jvalue" where
  "error_detail r =
     (case json r of
        None \<Rightarrow> Inr (JStr (if text r \<noteq> [] then text r else ''Unknown error''))
      | Some err_json \<Rightarrow>
          bind_result (py_get err_json ''detail'' JNull) (\<lambda>d.
            if truthy d then Inr d
            else bind_result (py_get err_json ''title'' JNull) (\<lambda>t.
              if truthy t then Inr t else Inr (JStr (py_str err_json)))))"

text \<open>Lines 23 to 25: the URL and the Basic-auth pair of the request.\<close>

definition outbound :: "config \<Rightarrow> string \<Rightarrow> string \<Rightarrow> jvalue option \<Rightarrow> http_request" where
  "outbound cfg meth endpoint kw =
     \<lparr>method = meth, url = BASE_URL cfg @ endpoint,
      auth = (''anystring'', MAILCHIMP_API_KEY cfg), payload = kw\<rparr>"

definition mailchimp_request ::
  "config \<Rightarrow> upstream \<Rightarrow> http_request list \<Rightarrow> string \<Rightarrow> string \<Rightarrow> jvalue option
     \<Rightarrow> (error + response) \<times> http_request list" where
  "mailchimp_request cfg up log meth endpoint kw =
     (let req = outbound cfg meth endpoint kw
      in (case up log req of
            RequestException e \<Rightarrow> Inl (ConnectError e)
          | Response r \<Rightarrow>
              if status_code r \<ge> 400
              then bind_result (error_detail r) (\<lambda>d. Inl (ApiError (status_code r) d))
              else Inr r,
          log @ [req]))"

section \<open>The tool handlers\<close>

text \<open>
  A handler is run with the configuration of the module, the upstream and the log of the
  requests made so far; it gives what the Python function returns, or the exception it
  raises, and the log with its own request added. An argument is any Python value: the
  signatures annotate \<open>str\<close>, and an f-string renders whatever it is given with \<open>str\<close>.
\<close>

text \<open>\<open>resp.json()\<close> in a handler, where its \<open>ValueError\<close> is not caught.\<close>

definition response_json :: "response \<Rightarrow> error + jvalue" where
  "response_json r = (case json r of None \<Rightarrow> Inl JSONDecodeError | Some v \<Rightarrow> Inr v)"

text \<open>The dictionary display of lines 54 to 59, its items evaluated in order.\<close>

definition campaign_entry :: "jvalue \<Rightarrow> error + jvalue" where
  "campaign_entry camp =
     bind_result (py_get camp ''id'' JNull) (\<lambda>cid.
     bind_result (py_get camp ''settings'' (JObj [])) (\<lambda>settings.
     bind_result (py_get settings ''title'' JNull) (\<lambda>title.
     bind_result (if truthy title then Inr title
                  else bind_result (py_get camp ''settings'' (JObj [])) (\<lambda>settings'.
                         py_get settings' ''subject_line'' JNull)) (\<lambda>nm.
     bind_result (py_get camp ''status'' JNull) (\<lambda>status.
     bind_result (py_get camp ''emails_sent'' JNull) (\<lambda>emails_sent.
     Inr (JObj [(''id'', cid), (''name'', nm), (''status'', status),
                (''emails_sent'', emails_sent)])))))))"

text \<open>The loop of lines 53 to 59: \<open>campaigns\<close> is the list built so far.\<close>

fun campaigns_loop :: "jvalue list \<Rightarrow> jvalue list \<Rightarrow> error + jvalue list" where
  "campaigns_loop [] campaigns = Inr campaigns"
| "campaigns_loop (camp # rest) campaigns =
     bind_result (campaign_entry camp) (\<lambda>entry. campaigns_loop rest (campaigns @ [entry]))"

definition list_campaigns ::
  "config \<Rightarrow> upstream \<Rightarrow> http_request list \<Rightarrow> (error + jvalue) \<times> http_request list" where
  "list_campaigns cfg up log =
     (case mailchimp_request cfg up log ''GET'' ''/campaigns'' None of
        (result, log') \<Rightarrow>
          (bind_result result (\<lambda>resp.
           bind_result (response_json resp) (\<lambda>data.
           bind_result (py_get data ''campaigns'' (JArr [])) (\<lambda>items.
           bind_result (py_iter items) (\<lambda>camps.
           bind_result (campaigns_loop camps []) (\<lambda>campaigns.
           Inr (JArr campaigns)))))), log'))"

definition create_campaign ::
  "config \<Rightarrow> upstream \<Rightarrow> http_request list \<Rightarrow> jvalue \<Rightarrow> jvalue \<Rightarrow> jvalue \<Rightarrow> jvalue
     \<Rightarrow> (error + jvalue) \<times> http_request list" where
  "create_campaign cfg up log list_id subject from_name reply_to =
     (let payload = JObj [(''type'', JStr ''regular''),
                          (''recipients'', JObj [(''list_id'', list_id)]),
                          (''settings'', JObj [(''subject_line'', subject),
                                               (''from_name'', from_name),
                                               (''reply_to'', reply_to)])]
      in case mailchimp_request cfg up log ''POST'' ''/campaigns'' (Some payload) of
           (result, log') \<Rightarrow>
             (bind_result result (\<lambda>resp.
              bind_result (response_json resp) (\<lambda>campaign_info.
              bind_result (py_get campaign_info ''id'' JNull) (\<lambda>cid.
              bind_result (py_get campaign_info ''status'' (JStr ''created'')) (\<lambda>status.
              Inr (JObj [(''id'', cid), (''status'', status)]))))), log'))"

definition send_campaign ::
  "config \<Rightarrow> upstream \<Rightarrow> http_request list \<Rightarrow> jvalue \<Rightarrow> (error + jvalue) \<times> http_request list" where
  "send_campaign cfg up log campaign_id =
     (case mailchimp_request cfg up log ''POST''
             (''/campaigns/'' @ py_str campaign_id @ ''/actions/send'') None of
        (result, log') \<Rightarrow>
          (bind_result result (\<lambda>resp.
           Inr (JStr (''Campaign '' @ py_str campaign_id @ '' has been sent.''))), log'))"

text \<open>The dictionary display of lines 95 to 100.\<close>

definition automation_entry :: "jvalue \<Rightarrow> error + jvalue" where
  "automation_entry auto =
     bind_result (py_get auto ''id'' JNull) (\<lambda>aid.
     bind_result (py_get auto ''settings'' (JObj [])) (\<lambda>settings.
     bind_result (py_get settings ''title'' JNull) (\<lambda>title.
     bind_result (if truthy title then Inr title
                  else py_get auto ''create_time'' JNull) (\<lambda>nm.
     bind_result (py_get auto ''status'' JNull) (\<lambda>status.
     bind_result (py_get auto ''emails_sent'' JNull) (\<lambda>emails_sent.
     Inr (JObj [(''id'', aid), (''name'', nm), (''status'', status),
                (''emails_sent'', emails_sent)])))))))"

fun automations_loop :: "jvalue list \<Rightarrow> jvalue list \<Rightarrow> error + jvalue list" where
  "automations_loop [] automations = Inr automations"
| "automations_loop (auto # rest) automations =
     bind_result (automation_entry auto) (\<lambda>entry. automations_loop rest (automations @ [entry]))"

definition list_automations ::
  "config \<Rightarrow> upstream \<Rightarrow> http_request list \<Rightarrow> (error + jvalue) \<times> http_request list" where
  "list_automations cfg up log =
     (case mailchimp_request cfg up log ''GET'' ''/automations'' None of
        (result, log') \<Rightarrow>
          (bind_result result (\<lambda>resp.
           bind_result (response_json resp) (\<lambda>data.
           bind_result (py_get data ''automations'' (JArr [])) (\<lambda>items.
           bind_result (py_iter items) (\<lambda>autos.
           bind_result (automations_loop autos []) (\<lambda>automations.
           Inr (JArr automations)))))), log'))"

definition start_automation ::
  "config \<Rightarrow> upstream \<Rightarrow> http_request list \<Rightarrow> jvalue \<Rightarrow> (error + jvalue) \<times> http_request list" where
  "start_automation cfg up log workflow_id =
     (case mailchimp_request cfg up log ''POST''
             (''/automations/'' @ py_str workflow_id @ ''/actions/start-all-emails'') None of
        (result, log') \<Rightarrow>
          (bind_result result (\<lambda>resp.
           Inr (JStr (''Automation workflow '' @ py_str workflow_id @ '' started.''))), log'))"

text \<open>
  A call of one of the five tools with its arguments, the handler it runs, and the request
  that handler hands to \<open>mailchimp_request\<close>.
\<close>

datatype tool_call =
    ListCampaigns
  | CreateCampaign jvalue jvalue jvalue jvalue
  | SendCampaign jvalue
  | ListAutomations
  | StartAutomation jvalue

fun run_tool ::
  "config \<Rightarrow> upstream \<Rightarrow> http_request list \<Rightarrow> tool_call \<Rightarrow> (error + jvalue) \<times> http_request list" where
  "run_tool cfg up log ListCampaigns = list_campaigns cfg up log"
| "run_tool cfg up log (CreateCampaign list_id subject from_name reply_to) =
     create_campaign cfg up log list_id subject from_name reply_to"
| "run_tool cfg up log (SendCampaign campaign_id) = send_campaign cfg up log campaign_id"
| "run_tool cfg up log ListAutomations = list_automations cfg up log"
| "run_tool cfg up log (StartAutomation workflow_id) = start_automation cfg up log workflow_id"

fun request_of :: "config \<Rightarrow> tool_call \<Rightarrow> http_request" where
  "request_of cfg ListCampaigns = outbound cfg ''GET'' ''/campaigns'' None"
| "request_of cfg (CreateCampaign list_id subject from_name reply_to) =
     outbound cfg ''POST'' ''/campaigns''
       (Some (JObj [(''type'', JStr ''regular''),
                    (''recipients'', JObj [(''list_id'', list_id)]),
                    (''settings'', JObj [(''subject_line'', subject),
                                         (''from_name'', from_name),
                                         (''reply_to'', reply_to)])]))"
| "request_of cfg (SendCampaign campaign_id) =
     outbound cfg ''POST'' (''/campaigns/'' @ py_str campaign_id @ ''/actions/send'') None"
| "request_of cfg ListAutomations = outbound cfg ''GET'' ''/automations'' None"
| "request_of cfg (StartAutomation workflow_id) =
     outbound cfg ''POST''
       (''/automations/'' @ py_str workflow_id @ ''/actions/start-all-emails'') None"

section \<open>Registry, session and dispatcher\<close>

text \<open>
  Modelled from the spec: the Tool Registry, the Session state machine and the Dispatcher
  are the \<open>FastMCP\<close> object \<open>mcp\<close> of the server module, whose code is not part of the
  repository. What the module itself fixes is the sequence of \<open>@mcp.tool()\<close> registrations:
  five functions, in the order of lines 46, 62, 80, 88 and 103, each registered under its
  function name with its docstring as description and its parameters as input schema.
\<close>

record tool_descriptor =
  name :: string
  description :: string
  inputSchema :: "string list"

type_synonym invocation =
  "config \<Rightarrow> upstream \<Rightarrow> http_request list \<Rightarrow> (error + jvalue) \<times> http_request list"

type_synonym handler = "jvalue list \<Rightarrow> invocation option"

type_synonym registry = "(tool_descriptor \<times> handler) list"

text \<open>
  Modelled from the spec: \<open>register\<close> adds an entry and fails if the name is already
  present; \<open>list\<close> returns the descriptors in registration order; \<open>lookup\<close> finds a
  tool by name.
\<close>

definition register :: "tool_descriptor \<Rightarrow> handler \<Rightarrow> registry \<Rightarrow> registry option" where
  "register d h reg =
     (if name d \<in> set (map (\<lambda>entry. name (fst entry)) reg) then None else Some (reg @ [(d, h)]))"

definition list_tools :: "registry \<Rightarrow> tool_descriptor list" where
  "list_tools reg = map fst reg"

definition lookup :: "registry \<Rightarrow> string \<Rightarrow> (tool_descriptor \<times> handler) option" where
  "lookup reg n = find (\<lambda>entry. name (fst entry) = n) reg"

fun register_all :: "(tool_descriptor \<times> handler) list \<Rightarrow> registry \<Rightarrow> registry option" where
  "register_all [] reg = Some reg"
| "register_all ((d, h) # rest) reg =
     (case register d h reg of None \<Rightarrow> None | Some reg' \<Rightarrow> register_all rest reg')"

text \<open>
  The five decorated functions in the order of the module. A handler binds the argument
  values, given in the order of the input schema, to the function's parameters.
\<close>

definition module_tools :: "(tool_descriptor \<times> handler) list" where
  "module_tools =
     [(\<lparr>name = ''list_campaigns'',
        description = ''Retrieve all email campaigns in the Mailchimp account (returns basic info for each campaign).'',
        inputSchema = []\<rparr>,
       (\<lambda>args. case args of [] \<Rightarrow> Some (\<lambda>cfg up log. list_campaigns cfg up log) | _ \<Rightarrow> None)),
      (\<lparr>name = ''create_campaign'',
        description = ''Create a new email campaign in Mailchimp (returns the new campaign's ID and details).'',
        inputSchema = [''list_id'', ''subject'', ''from_name'', ''reply_to'']\<rparr>,
       (\<lambda>args. case args of
                 [list_id, subject, from_name, reply_to] \<Rightarrow>
                   Some (\<lambda>cfg up log. create_campaign cfg up log list_id subject from_name reply_to)
               | _ \<Rightarrow> None)),
      (\<lparr>name = ''send_campaign'',
        description = ''Send a campaign that has been created (campaign must be ready to send).'',
        inputSchema = [''campaign_id'']\<rparr>,
       (\<lambda>args. case args of
                 [campaign_id] \<Rightarrow> Some (\<lambda>cfg up log. send_campaign cfg up log campaign_id)
               | _ \<Rightarrow> None)),
      (\<lparr>name = ''list_automations'',
        description = ''List all classic automation workflows in the Mailchimp account.'',
        inputSchema = []\<rparr>,
       (\<lambda>args. case args of [] \<Rightarrow> Some (\<lambda>cfg up log. list_automations cfg up log) | _ \<Rightarrow> None)),
      (\<lparr>name = ''start_automation'',
        description = ''Start all emails in a specified automation workflow (activating the automation).'',
        inputSchema = [''workflow_id'']\<rparr>,
       (\<lambda>args. case args of
                 [workflow_id] \<Rightarrow> Some (\<lambda>cfg up log. start_automation cfg up log workflow_id)
               | _ \<Rightarrow> None))]"

text \<open>
  Modelled from the spec: Session states, Request, Response and ErrorObject. A failure of
  the handler is carried in \<open>ToolFailure\<close> as the exception the handler raised.
\<close>

datatype session_state = Uninitialized | Ready | Closed

record rpc_request =
  rpc_method :: string
  rpc_id :: nat
  rpc_params :: jvalue

datatype error_object =
    ProtocolViolation
  | UnknownMethod string
  | UnknownTool string
  | InvalidParams
  | ToolFailure error

datatype rpc_result = Ack | Tools "tool_descriptor list" | Value jvalue

datatype rpc_response = Result nat rpc_result | Error nat error_object

record server =
  state :: session_state
  tools :: registry
  http_log :: "http_request list"

text \<open>The server process after its module has run: the registry built, no request served.\<close>

definition startup :: "server option" where
  "startup = map_option (\<lambda>reg. \<lparr>state = Uninitialized, tools = reg, http_log = []\<rparr>)
               (register_all module_tools [])"

text \<open>
  Modelled from the spec: \<open>tools/call\<close> with params \<open>{name, params}\<close>. An unknown name
  is \<open>UnknownTool\<close>; a missing required field is \<open>InvalidParams\<close>, before the handler
  runs; the value a handler returns is the result as it is.
\<close>

definition tools_call ::
  "config \<Rightarrow> upstream \<Rightarrow> nat \<Rightarrow> jvalue \<Rightarrow> server \<Rightarrow> rpc_response \<times> server" where
  "tools_call cfg up i ps srv =
     (case ps of
        JObj kvs \<Rightarrow>
          (case (map_of kvs ''name'', map_of kvs ''params'') of
             (Some (JStr n), Some (JObj args)) \<Rightarrow>
               (case lookup (tools srv) n of
                  None \<Rightarrow> (Error i (UnknownTool n), srv)
                | Some (d, h) \<Rightarrow>
                    (case those (map (map_of args) (inputSchema d)) of
                       None \<Rightarrow> (Error i InvalidParams, srv)
                     | Some vs \<Rightarrow>
                         (case h vs of
                            None \<Rightarrow> (Error i InvalidParams, srv)
                          | Some run \<Rightarrow>
                              (case run cfg up (http_log srv) of
                                 (Inr v, log') \<Rightarrow> (Result i (Value v), srv\<lparr>http_log := log'\<rparr>)
                               | (Inl e, log') \<Rightarrow>
                                   (Error i (ToolFailure e), srv\<lparr>http_log := log'\<rparr>)))))
           | _ \<Rightarrow> (Error i InvalidParams, srv))
      | _ \<Rightarrow> (Error i InvalidParams, srv))"

text \<open>
  Modelled from the spec: the Session. Before \<open>initialize\<close> every other request is a
  protocol violation and leaves the state as it is; there is no second \<open>initialize\<close>; a
  closed Session answers nothing.
\<close>

definition handle ::
  "config \<Rightarrow> upstream \<Rightarrow> rpc_request \<Rightarrow> server \<Rightarrow> rpc_response option \<times> server" where
  "handle cfg up req srv =
     (case state srv of
        Closed \<Rightarrow> (None, srv)
      | Uninitialized \<Rightarrow>
          if rpc_method req = ''initialize''
          then (Some (Result (rpc_id req) Ack), srv\<lparr>state := Ready\<rparr>)
          else (Some (Error (rpc_id req) ProtocolViolation), srv)
      | Ready \<Rightarrow>
          if rpc_method req = ''tools/list''
          then (Some (Result (rpc_id req) (Tools (list_tools (tools srv)))), srv)
          else if rpc_method req = ''tools/call''
          then (case tools_call cfg up (rpc_id req) (rpc_params req) srv of
                  (resp, srv') \<Rightarrow> (Some resp, srv'))
          else if rpc_method req = ''initialize''
          then (Some (Error (rpc_id req) ProtocolViolation), srv)
          else (Some (Error (rpc_id req) (UnknownMethod (rpc_method req))), srv))"

definition close :: "server \<Rightarrow> server" where
  "close srv = srv\<lparr>state := Closed\<rparr>"

section \<open>Notions used to state the properties\<close>

text \<open>
  A dotted path such as \<open>settings.title\<close>: the member of an object, \<open>None\<close> where
  the member is absent or the value is no object.
\<close>

fun member :: "jvalue \<Rightarrow> string \<Rightarrow> jvalue" where
  "member (JObj kvs) k = (case map_of kvs k of None \<Rightarrow> JNull | Some v \<Rightarrow> v)"
| "member v k = JNull"

text \<open>
  A campaign or automation object of the upstream API: a JSON object whose \<open>settings\<close>,
  when it has any, is a JSON object.
\<close>

fun is_object :: "jvalue \<Rightarrow> bool" where
  "is_object (JObj kvs) = True"
| "is_object v = False"

definition campaign_object :: "jvalue \<Rightarrow> bool" where
  "campaign_object c =
     (case c of
        JObj kvs \<Rightarrow> (case map_of kvs ''settings'' of None \<Rightarrow> True | Some s \<Rightarrow> is_object s)
      | _ \<Rightarrow> False)"

text \<open>
  The best-effort message in the words of the specification: the \<open>detail\<close> field if
  present, otherwise the \<open>title\<close> field, otherwise the raw body text, otherwise a generic
  string.
\<close>

definition spec_body :: "response \<Rightarrow> string" where
  "spec_body r =
     (case json r of
        Some (JObj kvs) \<Rightarrow>
          (case map_of kvs ''detail'' of
             Some d \<Rightarrow> py_str d
           | None \<Rightarrow>
               (case map_of kvs ''title'' of
                  Some t \<Rightarrow> py_str t
                | None \<Rightarrow> if text r \<noteq> [] then text r else ''Unknown error''))
      | _ \<Rightarrow> if text r \<noteq> [] then text r else ''Unknown error'')"

section \<open>Example inputs\<close>

definition demo_environ :: "string \<rightharpoonup> string" where
  "demo_environ = [''MAILCHIMP_API_KEY'' \<mapsto> ''0123abc-us21'']"

definition explicit_environ :: "string \<rightharpoonup> string" where
  "explicit_environ = [''MAILCHIMP_API_KEY'' \<mapsto> ''0123abc-us21'', ''MAILCHIMP_DC'' \<mapsto> ''us7'']"

definition placeholder_environ :: "string \<rightharpoonup> string" where
  "placeholder_environ =
     [''MAILCHIMP_API_KEY'' \<mapsto> ''0123abc-us21'', ''MAILCHIMP_DC'' \<mapsto> ''<YOUR_DC>'']"

definition demo_config :: config where
  "demo_config = load_config demo_environ"

definition answering :: "response \<Rightarrow> upstream" where
  "answering r log req = Response r"

definition refusing :: "string \<Rightarrow> upstream" where
  "refusing e log req = RequestException e"

definition not_found :: response where
  \<open>not_found =
     \<lparr>status_code = 404,
      text = ''{"title": "Resource Not Found", "detail": "No such campaign."}'',
      json = Some (JObj [(''title'', JStr ''Resource Not Found''),
                         (''detail'', JStr ''No such campaign.'')])\<rparr>\<close>

definition not_found_bare :: response where
  \<open>not_found_bare =
     \<lparr>status_code = 404, text = ''{"status": 404}'',
      json = Some (JObj [(''status'', JInt 404)])\<rparr>\<close>

definition not_found_array :: response where
  "not_found_array = \<lparr>status_code = 404, text = ''[]'', json = Some (JArr [])\<rparr>"

definition bad_gateway :: response where
  "bad_gateway = \<lparr>status_code = 502, text = ''Bad Gateway'', json = None\<rparr>"

definition no_content :: response where
  "no_content = \<lparr>status_code = 204, text = [], json = None\<rparr>"

definition two_campaigns :: "jvalue list" where
  "two_campaigns =
     [JObj [(''id'', JStr ''c1''), (''status'', JStr ''sent''), (''emails_sent'', JInt 120),
            (''settings'', JObj [(''title'', JStr ''Spring''), (''subject_line'', JStr ''Hello'')])],
      JObj [(''id'', JStr ''c2''), (''status'', JStr ''save''), (''emails_sent'', JInt 0),
            (''settings'', JObj [(''title'', JStr []), (''subject_line'', JStr ''Offer'')])]]"

definition campaigns_response :: response where
  "campaigns_response =
     \<lparr>status_code = 200, text = [], json = Some (JObj [(''campaigns'', JArr two_campaigns)])\<rparr>"

definition two_automations :: "jvalue list" where
  "two_automations =
     [JObj [(''id'', JStr ''a1''), (''status'', JStr ''sending''), (''emails_sent'', JInt 7),
            (''create_time'', JStr ''2024-01-01''),
            (''settings'', JObj [(''title'', JStr ''Welcome'')])],
      JObj [(''id'', JStr ''a2''), (''status'', JStr ''paused''), (''emails_sent'', JInt 0),
            (''create_time'', JStr ''2024-02-02'')]]"

definition automations_response :: response where
  "automations_response =
     \<lparr>status_code = 200, text = [],
      json = Some (JObj [(''automations'', JArr two_automations)])\<rparr>"

definition list_request :: "nat \<Rightarrow> rpc_request" where
  "list_request i = \<lparr>rpc_method = ''tools/list'', rpc_id = i, rpc_params = JObj []\<rparr>"

definition initialize_request :: "nat \<Rightarrow> rpc_request" where
  "initialize_request i = \<lparr>rpc_method = ''initialize'', rpc_id = i, rpc_params = JObj []\<rparr>"

definition call_request :: "nat \<Rightarrow> string \<Rightarrow> (string \<times> jvalue) list \<Rightarrow> rpc_request" where
  "call_request i n args =
     \<lparr>rpc_method = ''tools/call'', rpc_id = i,
      rpc_params = JObj [(''name'', JStr n), (''params'', JObj args)]\<rparr>"

text \<open>A Session that has been initialized, with the registry of the module.\<close>

definition ready_server :: server where
  "ready_server = \<lparr>state = Ready, tools = module_tools, http_log = []\<rparr>"

text \<open>What the two listing handlers return for the example responses.\<close>

definition campaign_records :: "jvalue list" where
  "campaign_records =
     [JObj [(''id'', JStr ''c1''), (''name'', JStr ''Spring''), (''status'', JStr ''sent''),
            (''emails_sent'', JInt 120)],
      JObj [(''id'', JStr ''c2''), (''name'', JStr ''Offer''), (''status'', JStr ''save''),
            (''emails_sent'', JInt 0)]]"

definition automation_records :: "jvalue list" where
  "automation_records =
     [JObj [(''id'', JStr ''a1''), (''name'', JStr ''Welcome''), (''status'', JStr ''sending''),
            (''emails_sent'', JInt 7)],
      JObj [(''id'', JStr ''a2''), (''name'', JStr ''2024-02-02''), (''status'', JStr ''paused''),
            (''emails_sent'', JInt 0)]]"

section \<open>Evaluation of the example inputs\<close>

lemma str_int_404: "str_int 404 = ''404''"
  by (simp add: str_int_def str_nat.simps digit_char_def)

lemma demo_config_eq: "demo_config = \<lparr>MAILCHIMP_API_KEY = ''0123abc-us21'', MAILCHIMP_DC = ''us21''\<rparr>"
  by (simp add: demo_config_def load_config_def demo_environ_def environ_get_def)

lemma request_of_send:
  "request_of demo_config (SendCampaign (JStr ''abc123'')) =
     \<lparr>method = ''POST'', url = ''https://us21.api.mailchimp.com/3.0/campaigns/abc123/actions/send'',
      auth = (''anystring'', ''0123abc-us21''), payload = None\<rparr>"
  by (simp add: outbound_def BASE_URL_def demo_config_eq)

lemma repr_status: "repr_str ''status'' = [CHR 0x27] @ ''status'' @ [CHR 0x27]"
  by (simp add: repr_str_def repr_char_def printable_def Let_def)

lemma py_repr_bare: "py_repr (JObj [(''status'', JInt 404)]) = ''{'status': 404}''"
  by (simp add: repr_status str_int_404)

section \<open>The outbound call and its failures\<close>

lemma mailchimp_request_log:
  "mailchimp_request cfg up log meth endpoint kw = (r, log') \<Longrightarrow>
     log' = log @ [outbound cfg meth endpoint kw]"
  by (auto simp: mailchimp_request_def Let_def)

lemma snd_run_tool: "snd (run_tool cfg up log c) = log @ [request_of cfg c]"
  by (cases c)
     (auto simp: list_campaigns_def create_campaign_def send_campaign_def list_automations_def
        start_automation_def Let_def split: prod.splits dest: mailchimp_request_log)

lemma run_tool_unreachable:
  "up log (request_of cfg c) = RequestException x \<Longrightarrow>
     run_tool cfg up log c = (Inl (ConnectError x), log @ [request_of cfg c])"
  by (cases c)
     (simp_all add: list_campaigns_def create_campaign_def send_campaign_def
        list_automations_def start_automation_def mailchimp_request_def bind_result_def)

lemma run_tool_http_error:
  "up log (request_of cfg c) = Response r \<Longrightarrow> status_code r \<ge> 400 \<Longrightarrow>
     run_tool cfg up log c =
       (bind_result (error_detail r) (\<lambda>d. Inl (ApiError (status_code r) d)),
        log @ [request_of cfg c])"
  by (cases c)
     (simp_all add: list_campaigns_def create_campaign_def send_campaign_def
        list_automations_def start_automation_def mailchimp_request_def bind_result_def
        split: sum.splits)

lemma error_detail_not_json:
  "json r = None \<Longrightarrow>
     error_detail r = Inr (JStr (if text r \<noteq> [] then text r else ''Unknown error''))"
  by (simp add: error_detail_def)

lemma error_detail_object:
  "json r = Some (JObj kvs) \<Longrightarrow>
     error_detail r =
       Inr (if truthy (member (JObj kvs) ''detail'') then member (JObj kvs) ''detail''
            else if truthy (member (JObj kvs) ''title'') then member (JObj kvs) ''title''
            else JStr (py_repr (JObj kvs)))"
  by (simp add: error_detail_def bind_result_def)

lemma error_detail_no_object:
  "json r = Some v \<Longrightarrow> \<not> is_object v \<Longrightarrow>
     error_detail r = Inl (AttributeError (type_name v) ''get'')"
  by (cases v) (simp_all add: error_detail_def bind_result_def)

lemma run_tool_no_object:
  "up log (request_of cfg c) = Response r \<Longrightarrow> status_code r \<ge> 400 \<Longrightarrow>
     json r = Some v \<Longrightarrow> \<not> is_object v \<Longrightarrow>
     fst (run_tool cfg up log c) = Inl (AttributeError (type_name v) ''get'')"
  by (simp add: run_tool_http_error error_detail_no_object bind_result_def)

lemma handle_call_send_campaign:
  assumes "state srv = Ready" and "tools srv = module_tools"
  shows "handle cfg up (call_request i ''send_campaign'' [(''campaign_id'', v)]) srv =
           (case send_campaign cfg up (http_log srv) v of
              (Inr w, log') \<Rightarrow> (Some (Result i (Value w)), srv\<lparr>http_log := log'\<rparr>)
            | (Inl e, log') \<Rightarrow> (Some (Error i (ToolFailure e)), srv\<lparr>http_log := log'\<rparr>))"
  using assms
  by (simp add: handle_def call_request_def tools_call_def lookup_def module_tools_def
        split: prod.splits sum.splits)

lemma answering_not_found:
  "fst (run_tool demo_config (answering not_found) [] (SendCampaign (JStr ''abc123''))) =
     Inl (ApiError 404 (JStr ''No such campaign.''))"
proof -
  have "answering not_found [] (request_of demo_config (SendCampaign (JStr ''abc123''))) =
          Response not_found"
    by (simp add: answering_def)
  moreover have "status_code not_found \<ge> 400"
    by (simp add: not_found_def)
  ultimately have "run_tool demo_config (answering not_found) [] (SendCampaign (JStr ''abc123'')) =
      (bind_result (error_detail not_found) (\<lambda>d. Inl (ApiError (status_code not_found) d)),
       [] @ [request_of demo_config (SendCampaign (JStr ''abc123''))])"
    by (rule run_tool_http_error)
  then show ?thesis
    by (simp add: error_detail_def bind_result_def not_found_def)
qed

lemma answering_not_found_bare:
  "fst (run_tool demo_config (answering not_found_bare) [] (SendCampaign (JStr ''abc123''))) =
     Inl (ApiError 404 (JStr (py_repr (JObj [(''status'', JInt 404)]))))"
proof -
  have "answering not_found_bare [] (request_of demo_config (SendCampaign (JStr ''abc123''))) =
          Response not_found_bare"
    by (simp add: answering_def)
  moreover have "status_code not_found_bare \<ge> 400"
    by (simp add: not_found_bare_def)
  ultimately have "run_tool demo_config (answering not_found_bare) [] (SendCampaign (JStr ''abc123'')) =
      (bind_result (error_detail not_found_bare) (\<lambda>d. Inl (ApiError (status_code not_found_bare) d)),
       [] @ [request_of demo_config (SendCampaign (JStr ''abc123''))])"
    by (rule run_tool_http_error)
  then show ?thesis
    by (simp add: error_detail_def bind_result_def not_found_bare_def del: py_repr.simps)
qed

text \<open>
  C9: \<open>mailchimp_request\<close> raises if and only if the outbound request itself fails or the
  upstream answers with a status of 400 or more; a response with a status below 400 is
  returned as it is.
\<close>

theorem mailchimp_request_raises_iff:
  "((\<exists>e. fst (mailchimp_request cfg up log meth endpoint kw) = Inl e) \<longleftrightarrow>
      (\<exists>x. up log (outbound cfg meth endpoint kw) = RequestException x) \<or>
      (\<exists>r. up log (outbound cfg meth endpoint kw) = Response r \<and> status_code r \<ge> 400)) \<and>
   (\<forall>r. up log (outbound cfg meth endpoint kw) = Response r \<and> status_code r < 400 \<longrightarrow>
      fst (mailchimp_request cfg up log meth endpoint kw) = Inr r)"
  by (cases "up log (outbound cfg meth endpoint kw)")
     (auto simp: mailchimp_request_def bind_result_def split: sum.splits)

theorem mailchimp_request_raises_iff_witness:
  "status_code no_content < 400 \<and>
   fst (mailchimp_request demo_config (answering no_content) [] ''POST''
          ''/campaigns/abc123/actions/send'' None) = Inr no_content \<and>
   status_code not_found \<ge> 400 \<and>
   (\<exists>e. fst (mailchimp_request demo_config (answering not_found) [] ''POST''
          ''/campaigns/abc123/actions/send'' None) = Inl e) \<and>
   (\<exists>e. fst (mailchimp_request demo_config (refusing ''timed out'') [] ''POST''
          ''/campaigns/abc123/actions/send'' None) = Inl e)"
  using mailchimp_request_raises_iff [of demo_config "answering no_content" "[]" "''POST''"
          "''/campaigns/abc123/actions/send''" None]
        mailchimp_request_raises_iff [of demo_config "answering not_found" "[]" "''POST''"
          "''/campaigns/abc123/actions/send''" None]
        mailchimp_request_raises_iff [of demo_config "refusing ''timed out''" "[]" "''POST''"
          "''/campaigns/abc123/actions/send''" None]
  by (simp add: answering_def refusing_def no_content_def not_found_def)

text \<open>
  C1, as the code has it: when the upstream answers a tool's request with a status of 400 or
  more and a JSON object whose \<open>detail\<close> value is truthy (for a string: not empty), the
  handler fails with the exception of line 41, and the message of that exception is
  \<open>Mailchimp API error\<close>, the status code, a colon and the \<open>detail\<close> value.
\<close>

theorem api_error_message:
  assumes "up log (request_of cfg c) = Response r" and "status_code r \<ge> 400"
    and "json r = Some (JObj kvs)" and "map_of kvs ''detail'' = Some d" and "truthy d"
  shows "fst (run_tool cfg up log c) = Inl (ApiError (status_code r) d) \<and>
         message (ApiError (status_code r) d) =
           ''Mailchimp API error '' @ str_int (status_code r) @ '': '' @ py_str d"
  using assms by (simp add: run_tool_http_error error_detail_object bind_result_def)

theorem api_error_message_witness:
  "fst (run_tool demo_config (answering not_found) [] (SendCampaign (JStr ''abc123''))) =
     Inl (ApiError 404 (JStr ''No such campaign.'')) \<and>
   message (ApiError 404 (JStr ''No such campaign.'')) =
     ''Mailchimp API error 404: No such campaign.''"
proof -
  have "answering not_found [] (request_of demo_config (SendCampaign (JStr ''abc123''))) =
          Response not_found"
    by (simp add: answering_def)
  moreover have "status_code not_found \<ge> 400"
    by (simp add: not_found_def)
  moreover have "json not_found =
      Some (JObj [(''title'', JStr ''Resource Not Found''), (''detail'', JStr ''No such campaign.'')])"
    by (simp add: not_found_def)
  moreover have "map_of [(''title'', JStr ''Resource Not Found''), (''detail'', JStr ''No such campaign.'')]
      ''detail'' = Some (JStr ''No such campaign.'')"
    by simp
  moreover have "truthy (JStr ''No such campaign.'')"
    by simp
  ultimately have "fst (run_tool demo_config (answering not_found) [] (SendCampaign (JStr ''abc123''))) =
      Inl (ApiError (status_code not_found) (JStr ''No such campaign.'')) \<and>
    message (ApiError (status_code not_found) (JStr ''No such campaign.'')) =
      ''Mailchimp API error '' @ str_int (status_code not_found) @ '': '' @ py_str (JStr ''No such campaign.'')"
    by (rule api_error_message)
  then show ?thesis
    by (simp add: not_found_def str_int_404)
qed

text \<open>
  The message is not the \<open>detail\<close> value alone: for a 404 whose body has the \<open>detail\<close>
  \<open>No such campaign.\<close> it also holds the prefix and the status code.
\<close>

theorem message_is_not_detail:
  "status_code not_found = 404 \<and>
   json not_found = Some (JObj [(''title'', JStr ''Resource Not Found''),
                                (''detail'', JStr ''No such campaign.'')]) \<and>
   fst (run_tool demo_config (answering not_found) [] (SendCampaign (JStr ''abc123''))) =
     Inl (ApiError 404 (JStr ''No such campaign.'')) \<and>
   message (ApiError 404 (JStr ''No such campaign.'')) \<noteq> ''No such campaign.''"
  using answering_not_found by (simp add: not_found_def str_int_404)

text \<open>
  C2, as the code has it: when the upstream answers a tool's request with a status of 400 or
  more, and the body is not JSON or is a JSON object, the handler fails with the exception
  of line 41 (the failure the specification calls \<open>ToolInvocationError\<close>), which carries
  the status code and a best-effort message. For a body that is not JSON the message is
  the raw body text, or \<open>Unknown error\<close> when the text is empty. For a JSON object it is
  the \<open>detail\<close> value when that is truthy, otherwise the \<open>title\<close> value when that is
  truthy, otherwise Python's rendering of the parsed object.
\<close>

theorem api_error_body:
  assumes "up log (request_of cfg c) = Response r" and "status_code r \<ge> 400"
  shows "(json r = None \<longrightarrow>
            fst (run_tool cfg up log c) =
              Inl (ApiError (status_code r)
                     (JStr (if text r \<noteq> [] then text r else ''Unknown error'')))) \<and>
         (\<forall>kvs. json r = Some (JObj kvs) \<longrightarrow>
            fst (run_tool cfg up log c) =
              Inl (ApiError (status_code r)
                     (if truthy (member (JObj kvs) ''detail'') then member (JObj kvs) ''detail''
                      else if truthy (member (JObj kvs) ''title'') then member (JObj kvs) ''title''
                      else JStr (py_repr (JObj kvs)))))"
  using assms
  by (simp add: run_tool_http_error error_detail_object error_detail_not_json bind_result_def)

theorem api_error_body_witness:
  "fst (run_tool demo_config (answering bad_gateway) [] ListCampaigns) =
     Inl (ApiError 502 (JStr ''Bad Gateway'')) \<and>
   fst (run_tool demo_config (answering not_found) [] ListCampaigns) =
     Inl (ApiError 404 (JStr ''No such campaign.''))"
  using api_error_body [of "answering bad_gateway" "[]" demo_config ListCampaigns bad_gateway]
        api_error_body [of "answering not_found" "[]" demo_config ListCampaigns not_found]
  by (simp add: answering_def bad_gateway_def not_found_def del: request_of.simps run_tool.simps)

text \<open>
  For a JSON object with neither \<open>detail\<close> nor \<open>title\<close> the message is not the raw body
  text, which is what the wording of the specification (\<open>spec_body\<close>) asks for: the body
  \<open>{"status": 404}\<close> is reported as \<open>{'status': 404}\<close>.
\<close>

theorem body_is_not_raw_text:
  \<open>status_code not_found_bare = 404 \<and>
   fst (run_tool demo_config (answering not_found_bare) [] (SendCampaign (JStr ''abc123''))) =
     Inl (ApiError 404 (JStr ''{'status': 404}'')) \<and>
   spec_body not_found_bare = ''{"status": 404}'' \<and>
   py_str (JStr ''{'status': 404}'') \<noteq> spec_body not_found_bare\<close>
  using answering_not_found_bare
  by (simp add: py_repr_bare not_found_bare_def spec_body_def del: py_repr.simps)

text \<open>
  C3: \<open>send_campaign\<close> with \<open>campaign_id = "abc123"\<close> against an upstream that answers
  404. When the body of the 404 is JSON but no object, here the empty array, \<open>err_json.get\<close>
  raises an \<open>AttributeError\<close> that \<open>except ValueError\<close> does not catch: the handler fails
  with that exception, which carries no status code, and not with the exception of line 41;
  the \<open>tools/call\<close> is answered with that failure.
\<close>

theorem send_campaign_404_array:
  "status_code not_found_array = 404 \<and>
   run_tool demo_config (answering not_found_array) [] (SendCampaign (JStr ''abc123'')) =
     (Inl (AttributeError ''list'' ''get''),
      [\<lparr>method = ''POST'',
        url = ''https://us21.api.mailchimp.com/3.0/campaigns/abc123/actions/send'',
        auth = (''anystring'', ''0123abc-us21''), payload = None\<rparr>]) \<and>
   fst (handle demo_config (answering not_found_array)
          (call_request 7 ''send_campaign'' [(''campaign_id'', JStr ''abc123'')]) ready_server) =
     Some (Error 7 (ToolFailure (AttributeError ''list'' ''get'')))"
proof -
  have "answering not_found_array [] (request_of demo_config (SendCampaign (JStr ''abc123''))) =
          Response not_found_array"
    by (simp add: answering_def)
  moreover have "status_code not_found_array \<ge> 400"
    by (simp add: not_found_array_def)
  ultimately have "run_tool demo_config (answering not_found_array) [] (SendCampaign (JStr ''abc123'')) =
      (bind_result (error_detail not_found_array) (\<lambda>d. Inl (ApiError (status_code not_found_array) d)),
       [] @ [request_of demo_config (SendCampaign (JStr ''abc123''))])"
    by (rule run_tool_http_error)
  then have run: "run_tool demo_config (answering not_found_array) [] (SendCampaign (JStr ''abc123'')) =
     (Inl (AttributeError ''list'' ''get''),
      [\<lparr>method = ''POST'',
        url = ''https://us21.api.mailchimp.com/3.0/campaigns/abc123/actions/send'',
        auth = (''anystring'', ''0123abc-us21''), payload = None\<rparr>])"
    by (simp add: error_detail_def bind_result_def not_found_array_def request_of_send
          del: request_of.simps run_tool.simps)
  have "state ready_server = Ready" and "tools ready_server = module_tools"
    by (simp_all add: ready_server_def)
  from handle_call_send_campaign [OF this] run
  have "fst (handle demo_config (answering not_found_array)
          (call_request 7 ''send_campaign'' [(''campaign_id'', JStr ''abc123'')]) ready_server) =
     Some (Error 7 (ToolFailure (AttributeError ''list'' ''get'')))"
    by (simp add: ready_server_def)
  with run show ?thesis
    by (simp add: not_found_array_def)
qed

text \<open>
  C4: when the outbound request of a tool call itself fails, the handler fails with the
  exception of line 30 (the failure the specification calls \<open>UpstreamUnreachable\<close>), whose
  message starts with \<open>Failed to connect to Mailchimp API\<close>; and whatever the outcome, a
  tool call makes exactly one outbound request, so nothing is retried.
\<close>

theorem unreachable_no_retry:
  "(up log (request_of cfg c) = RequestException x \<longrightarrow>
      fst (run_tool cfg up log c) = Inl (ConnectError x) \<and>
      message (ConnectError x) = ''Failed to connect to Mailchimp API: '' @ x) \<and>
   snd (run_tool cfg up log c) = log @ [request_of cfg c]"
  by (simp add: run_tool_unreachable snd_run_tool)

theorem unreachable_no_retry_witness:
  "fst (run_tool demo_config (refusing ''Connection refused'') [] (SendCampaign (JStr ''abc123''))) =
     Inl (ConnectError ''Connection refused'') \<and>
   message (ConnectError ''Connection refused'') =
     ''Failed to connect to Mailchimp API: Connection refused'' \<and>
   snd (run_tool demo_config (refusing ''Connection refused'') [] (SendCampaign (JStr ''abc123''))) =
     [\<lparr>method = ''POST'',
       url = ''https://us21.api.mailchimp.com/3.0/campaigns/abc123/actions/send'',
       auth = (''anystring'', ''0123abc-us21''), payload = None\<rparr>]"
  using unreachable_no_retry [of "refusing ''Connection refused''" "[]" demo_config
          "SendCampaign (JStr ''abc123'')" "''Connection refused''"]
  by (simp add: refusing_def request_of_send del: request_of.simps run_tool.simps)

section \<open>The listing handlers\<close>

lemma campaign_entry_object:
  "campaign_object c \<Longrightarrow>
     campaign_entry c =
       Inr (JObj [(''id'', member c ''id''),
                  (''name'', if truthy (member (member c ''settings'') ''title'')
                             then member (member c ''settings'') ''title''
                             else member (member c ''settings'') ''subject_line''),
                  (''status'', member c ''status''),
                  (''emails_sent'', member c ''emails_sent'')])"
proof (cases c)
  case (JObj kvs)
  assume obj: "campaign_object c"
  show ?thesis
  proof (cases "map_of kvs ''settings''")
    case None
    with JObj show ?thesis
      by (simp add: campaign_entry_def bind_result_def)
  next
    case (Some s)
    with JObj obj obtain skv where "s = JObj skv"
      by (cases s) (simp_all add: campaign_object_def)
    with JObj Some show ?thesis
      by (simp add: campaign_entry_def bind_result_def)
  qed
qed (simp_all add: campaign_object_def)

lemma campaign_entry_returns: "campaign_entry c = Inr e \<Longrightarrow> campaign_object c"
proof (cases c)
  case (JObj kvs)
  assume ret: "campaign_entry c = Inr e"
  show ?thesis
  proof (cases "map_of kvs ''settings''")
    case None
    with JObj show ?thesis by (simp add: campaign_object_def)
  next
    case (Some s)
    with JObj ret show ?thesis
      by (cases s) (simp_all add: campaign_object_def campaign_entry_def bind_result_def)
  qed
qed (simp_all add: campaign_entry_def bind_result_def)

lemma campaigns_loop_returns:
  "campaigns_loop cs acc = Inr rs \<Longrightarrow>
     \<exists>es. rs = acc @ es \<and> length es = length cs \<and>
          (\<forall>i<length cs. campaign_entry (cs ! i) = Inr (es ! i))"
proof (induction cs arbitrary: acc)
  case Nil
  then show ?case by simp
next
  case (Cons c cs)
  from Cons.prems obtain e where e: "campaign_entry c = Inr e"
    and rest: "campaigns_loop cs (acc @ [e]) = Inr rs"
    by (auto simp: bind_result_def split: sum.splits)
  from Cons.IH [OF rest] obtain es where es: "rs = (acc @ [e]) @ es" "length es = length cs"
    "\<forall>i<length cs. campaign_entry (cs ! i) = Inr (es ! i)"
    by blast
  have "\<forall>i<length (c # cs). campaign_entry ((c # cs) ! i) = Inr ((e # es) ! i)"
    using e es(3) by (auto simp: nth_Cons split: nat.splits)
  with es(1,2) show ?case
    by (intro exI [of _ "e # es"]) simp
qed

lemma campaigns_loop_objects:
  "\<forall>c\<in>set cs. campaign_object c \<Longrightarrow> \<exists>rs. campaigns_loop cs acc = Inr rs"
proof (induction cs arbitrary: acc)
  case Nil
  then show ?case by simp
next
  case (Cons c cs)
  then show ?case
    by (simp add: campaign_entry_object bind_result_def)
qed

lemma automation_entry_returns:
  "automation_entry a = Inr e \<Longrightarrow>
     e = JObj [(''id'', member a ''id''),
               (''name'', if truthy (member (member a ''settings'') ''title'')
                          then member (member a ''settings'') ''title''
                          else member a ''create_time''),
               (''status'', member a ''status''),
               (''emails_sent'', member a ''emails_sent'')]"
proof (cases a)
  case (JObj kvs)
  assume ret: "automation_entry a = Inr e"
  show ?thesis
  proof (cases "map_of kvs ''settings''")
    case None
    with JObj ret show ?thesis
      by (auto simp: automation_entry_def bind_result_def)
  next
    case (Some s)
    with JObj ret show ?thesis
      by (cases s) (auto simp: automation_entry_def bind_result_def)
  qed
qed (simp_all add: automation_entry_def bind_result_def)

lemma automations_loop_returns:
  "automations_loop cs acc = Inr rs \<Longrightarrow>
     \<exists>es. rs = acc @ es \<and> length es = length cs \<and>
          (\<forall>i<length cs. automation_entry (cs ! i) = Inr (es ! i))"
proof (induction cs arbitrary: acc)
  case Nil
  then show ?case by simp
next
  case (Cons c cs)
  from Cons.prems obtain e where e: "automation_entry c = Inr e"
    and rest: "automations_loop cs (acc @ [e]) = Inr rs"
    by (auto simp: bind_result_def split: sum.splits)
  from Cons.IH [OF rest] obtain es where es: "rs = (acc @ [e]) @ es" "length es = length cs"
    "\<forall>i<length cs. automation_entry (cs ! i) = Inr (es ! i)"
    by blast
  have "\<forall>i<length (c # cs). automation_entry ((c # cs) ! i) = Inr ((e # es) ! i)"
    using e es(3) by (auto simp: nth_Cons split: nat.splits)
  with es(1,2) show ?case
    by (intro exI [of _ "e # es"]) simp
qed

lemma list_campaigns_ok:
  assumes "up log (outbound cfg ''GET'' ''/campaigns'' None) = Response r"
    and "status_code r < 400"
  shows "list_campaigns cfg up log =
           (bind_result (response_json r) (\<lambda>data.
            bind_result (py_get data ''campaigns'' (JArr [])) (\<lambda>items.
            bind_result (py_iter items) (\<lambda>camps.
            bind_result (campaigns_loop camps []) (\<lambda>campaigns. Inr (JArr campaigns))))),
            log @ [outbound cfg ''GET'' ''/campaigns'' None])"
  using assms by (simp add: list_campaigns_def mailchimp_request_def bind_result_def)

lemma list_automations_ok:
  assumes "up log (outbound cfg ''GET'' ''/automations'' None) = Response r"
    and "status_code r < 400"
  shows "list_automations cfg up log =
           (bind_result (response_json r) (\<lambda>data.
            bind_result (py_get data ''automations'' (JArr [])) (\<lambda>items.
            bind_result (py_iter items) (\<lambda>autos.
            bind_result (automations_loop autos []) (\<lambda>automations. Inr (JArr automations))))),
            log @ [outbound cfg ''GET'' ''/automations'' None])"
  using assms by (simp add: list_automations_def mailchimp_request_def bind_result_def)

lemma list_campaigns_returns:
  assumes "fst (list_campaigns cfg up log) = Inr v"
  shows "\<exists>r data items camps rs.
           up log (outbound cfg ''GET'' ''/campaigns'' None) = Response r \<and>
           status_code r < 400 \<and> json r = Some data \<and>
           py_get data ''campaigns'' (JArr []) = Inr items \<and> py_iter items = Inr camps \<and>
           campaigns_loop camps [] = Inr rs \<and> v = JArr rs"
proof (cases "up log (outbound cfg ''GET'' ''/campaigns'' None)")
  case (RequestException x)
  with assms show ?thesis
    by (simp add: list_campaigns_def mailchimp_request_def bind_result_def)
next
  case (Response r)
  show ?thesis
  proof (cases "status_code r < 400")
    case True
    from list_campaigns_ok [where up = up and log = log, OF Response True] assms Response True show ?thesis
      by (auto simp: bind_result_def response_json_def split: sum.splits option.splits)
  next
    case False
    with assms Response show ?thesis
      by (simp add: list_campaigns_def mailchimp_request_def bind_result_def split: sum.splits)
  qed
qed

lemma list_automations_returns:
  assumes "fst (list_automations cfg up log) = Inr v"
  shows "\<exists>r data items autos rs.
           up log (outbound cfg ''GET'' ''/automations'' None) = Response r \<and>
           status_code r < 400 \<and> json r = Some data \<and>
           py_get data ''automations'' (JArr []) = Inr items \<and> py_iter items = Inr autos \<and>
           automations_loop autos [] = Inr rs \<and> v = JArr rs"
proof (cases "up log (outbound cfg ''GET'' ''/automations'' None)")
  case (RequestException x)
  with assms show ?thesis
    by (simp add: list_automations_def mailchimp_request_def bind_result_def)
next
  case (Response r)
  show ?thesis
  proof (cases "status_code r < 400")
    case True
    from list_automations_ok [where up = up and log = log, OF Response True] assms Response True show ?thesis
      by (auto simp: bind_result_def response_json_def split: sum.splits option.splits)
  next
    case False
    with assms Response show ?thesis
      by (simp add: list_automations_def mailchimp_request_def bind_result_def split: sum.splits)
  qed
qed

lemma handle_call_list_campaigns:
  assumes "state srv = Ready" and "tools srv = module_tools"
  shows "handle cfg up (call_request i ''list_campaigns'' []) srv =
           (case list_campaigns cfg up (http_log srv) of
              (Inr v, log') \<Rightarrow> (Some (Result i (Value v)), srv\<lparr>http_log := log'\<rparr>)
            | (Inl e, log') \<Rightarrow> (Some (Error i (ToolFailure e)), srv\<lparr>http_log := log'\<rparr>))"
  using assms
  by (simp add: handle_def call_request_def tools_call_def lookup_def module_tools_def
        split: prod.splits sum.splits)

lemma campaigns_demo:
  "list_campaigns demo_config (answering campaigns_response) [] =
     (Inr (JArr [JObj [(''id'', JStr ''c1''), (''name'', JStr ''Spring''), (''status'', JStr ''sent''),
                       (''emails_sent'', JInt 120)],
                 JObj [(''id'', JStr ''c2''), (''name'', JStr ''Offer''), (''status'', JStr ''save''),
                       (''emails_sent'', JInt 0)]]),
      [outbound demo_config ''GET'' ''/campaigns'' None])"
proof -
  have "answering campaigns_response [] (outbound demo_config ''GET'' ''/campaigns'' None) =
          Response campaigns_response"
    by (simp add: answering_def)
  moreover have "status_code campaigns_response < 400"
    by (simp add: campaigns_response_def)
  ultimately have "list_campaigns demo_config (answering campaigns_response) [] =
           (bind_result (response_json campaigns_response) (\<lambda>data.
            bind_result (py_get data ''campaigns'' (JArr [])) (\<lambda>items.
            bind_result (py_iter items) (\<lambda>camps.
            bind_result (campaigns_loop camps []) (\<lambda>campaigns. Inr (JArr campaigns))))),
            [] @ [outbound demo_config ''GET'' ''/campaigns'' None])"
    by (rule list_campaigns_ok)
  then show ?thesis
    by (simp add: campaigns_response_def two_campaigns_def response_json_def bind_result_def
          campaign_entry_def)
qed

lemma automations_demo:
  "list_automations demo_config (answering automations_response) [] =
     (Inr (JArr [JObj [(''id'', JStr ''a1''), (''name'', JStr ''Welcome''), (''status'', JStr ''sending''),
                       (''emails_sent'', JInt 7)],
                 JObj [(''id'', JStr ''a2''), (''name'', JStr ''2024-02-02''), (''status'', JStr ''paused''),
                       (''emails_sent'', JInt 0)]]),
      [outbound demo_config ''GET'' ''/automations'' None])"
proof -
  have "answering automations_response [] (outbound demo_config ''GET'' ''/automations'' None) =
          Response automations_response"
    by (simp add: answering_def)
  moreover have "status_code automations_response < 400"
    by (simp add: automations_response_def)
  ultimately have "list_automations demo_config (answering automations_response) [] =
           (bind_result (response_json automations_response) (\<lambda>data.
            bind_result (py_get data ''automations'' (JArr [])) (\<lambda>items.
            bind_result (py_iter items) (\<lambda>autos.
            bind_result (automations_loop autos []) (\<lambda>automations. Inr (JArr automations))))),
            [] @ [outbound demo_config ''GET'' ''/automations'' None])"
    by (rule list_automations_ok)
  then show ?thesis
    by (simp add: automations_response_def two_automations_def response_json_def bind_result_def
          automation_entry_def)
qed

text \<open>
  C5: when the upstream answers the request of \<open>list_campaigns\<close> with a success status
  and an object whose \<open>campaigns\<close> member is a list of \<open>N\<close> campaign objects, a
  \<open>tools/call\<close> of \<open>list_campaigns\<close> with empty params on a Ready Session answers with
  the value the handler returns, as it is: a list of \<open>N\<close> records, the \<open>j\<close>-th made from
  the \<open>j\<close>-th campaign, each with exactly the fields \<open>id\<close>, \<open>name\<close>, \<open>status\<close> and
  \<open>emails_sent\<close>.
\<close>

theorem list_campaigns_records:
  assumes "up log (outbound cfg ''GET'' ''/campaigns'' None) = Response r"
    and "status_code r < 400"
    and "json r = Some (JObj kvs)" and "map_of kvs ''campaigns'' = Some (JArr camps)"
    and "\<forall>c\<in>set camps. campaign_object c"
    and "state srv = Ready" and "tools srv = module_tools" and "http_log srv = log"
  shows "\<exists>rs. fst (handle cfg up (call_request i ''list_campaigns'' []) srv) =
                 Some (Result i (Value (JArr rs))) \<and>
              fst (list_campaigns cfg up log) = Inr (JArr rs) \<and>
              length rs = length camps \<and>
              (\<forall>j<length camps. \<exists>nm.
                 rs ! j = JObj [(''id'', member (camps ! j) ''id''), (''name'', nm),
                                (''status'', member (camps ! j) ''status''),
                                (''emails_sent'', member (camps ! j) ''emails_sent'')])"
proof -
  from campaigns_loop_objects [OF assms(5)] obtain rs where rs: "campaigns_loop camps [] = Inr rs"
    by blast
  from campaigns_loop_returns [OF rs] have len: "length rs = length camps"
    and ent: "\<forall>j<length camps. campaign_entry (camps ! j) = Inr (rs ! j)"
    by auto
  have run: "list_campaigns cfg up log =
      (Inr (JArr rs), log @ [outbound cfg ''GET'' ''/campaigns'' None])"
    using list_campaigns_ok [where up = up and log = log, OF assms(1,2)] assms(3,4) rs
    by (simp add: bind_result_def response_json_def)
  have "fst (handle cfg up (call_request i ''list_campaigns'' []) srv) =
          Some (Result i (Value (JArr rs)))"
    using handle_call_list_campaigns [OF assms(6,7)] assms(8) run by simp
  moreover have "\<exists>nm. rs ! j = JObj [(''id'', member (camps ! j) ''id''), (''name'', nm),
                                (''status'', member (camps ! j) ''status''),
                                (''emails_sent'', member (camps ! j) ''emails_sent'')]"
    if "j < length camps" for j
  proof -
    from that assms(5) have "campaign_object (camps ! j)" by simp
    from campaign_entry_object [OF this] ent that show ?thesis by simp
  qed
  ultimately show ?thesis
    using run len by (intro exI [of _ rs]) simp
qed

theorem list_campaigns_records_witness:
  "campaign_object (two_campaigns ! 0) \<and> campaign_object (two_campaigns ! 1) \<and>
   length two_campaigns = 2 \<and>
   (\<exists>rs. fst (handle demo_config (answering campaigns_response)
                (call_request 3 ''list_campaigns'' []) ready_server) =
            Some (Result 3 (Value (JArr rs))) \<and>
         fst (list_campaigns demo_config (answering campaigns_response) []) = Inr (JArr rs) \<and>
         length rs = 2)"
proof -
  have objs: "\<forall>c\<in>set two_campaigns. campaign_object c"
    by (simp add: two_campaigns_def campaign_object_def)
  have "\<exists>rs. fst (handle demo_config (answering campaigns_response)
                (call_request 3 ''list_campaigns'' []) ready_server) =
            Some (Result 3 (Value (JArr rs))) \<and>
         fst (list_campaigns demo_config (answering campaigns_response) []) = Inr (JArr rs) \<and>
         length rs = length two_campaigns \<and>
         (\<forall>j<length two_campaigns. \<exists>nm.
            rs ! j = JObj [(''id'', member (two_campaigns ! j) ''id''), (''name'', nm),
                           (''status'', member (two_campaigns ! j) ''status''),
                           (''emails_sent'', member (two_campaigns ! j) ''emails_sent'')])"
  proof (rule list_campaigns_records [where r = campaigns_response
        and kvs = "[(''campaigns'', JArr two_campaigns)]"])
    show "answering campaigns_response [] (outbound demo_config ''GET'' ''/campaigns'' None) =
            Response campaigns_response"
      by (simp add: answering_def)
    show "status_code campaigns_response < 400"
      by (simp add: campaigns_response_def)
    show "json campaigns_response = Some (JObj [(''campaigns'', JArr two_campaigns)])"
      by (simp add: campaigns_response_def)
    show "map_of [(''campaigns'', JArr two_campaigns)] ''campaigns'' = Some (JArr two_campaigns)"
      by simp
    show "\<forall>c\<in>set two_campaigns. campaign_object c"
      by (rule objs)
    show "state ready_server = Ready" "tools ready_server = module_tools"
      "http_log ready_server = []"
      by (simp_all add: ready_server_def)
  qed
  then obtain rs where "fst (handle demo_config (answering campaigns_response)
                (call_request 3 ''list_campaigns'' []) ready_server) =
            Some (Result 3 (Value (JArr rs)))"
    "fst (list_campaigns demo_config (answering campaigns_response) []) = Inr (JArr rs)"
    "length rs = length two_campaigns"
    by blast
  moreover have "length two_campaigns = 2"
    by (simp add: two_campaigns_def)
  moreover have "campaign_object (two_campaigns ! 0)" "campaign_object (two_campaigns ! 1)"
    by (simp_all add: two_campaigns_def campaign_object_def)
  ultimately show ?thesis
    by auto
qed

text \<open>
  C10: in every record that \<open>list_campaigns\<close> returns, \<open>name\<close> is \<open>settings.title\<close> of the
  campaign when that is truthy (present and, for a string, not empty), otherwise
  \<open>settings.subject_line\<close>, which is \<open>None\<close> when absent; in every record that
  \<open>list_automations\<close> returns, \<open>name\<close> is \<open>settings.title\<close> when that is truthy,
  otherwise the \<open>create_time\<close> of the automation.
\<close>

theorem record_names:
  "(fst (list_campaigns cfg up log) = Inr v \<longrightarrow>
      (\<exists>r data items camps rs.
         up log (outbound cfg ''GET'' ''/campaigns'' None) = Response r \<and> json r = Some data \<and>
         py_get data ''campaigns'' (JArr []) = Inr items \<and> py_iter items = Inr camps \<and>
         v = JArr rs \<and> length rs = length camps \<and>
         (\<forall>j<length rs.
            member (rs ! j) ''name'' =
              (if truthy (member (member (camps ! j) ''settings'') ''title'')
               then member (member (camps ! j) ''settings'') ''title''
               else member (member (camps ! j) ''settings'') ''subject_line'')))) \<and>
   (fst (list_automations cfg up log) = Inr w \<longrightarrow>
      (\<exists>r data items autos rs.
         up log (outbound cfg ''GET'' ''/automations'' None) = Response r \<and> json r = Some data \<and>
         py_get data ''automations'' (JArr []) = Inr items \<and> py_iter items = Inr autos \<and>
         w = JArr rs \<and> length rs = length autos \<and>
         (\<forall>j<length rs.
            member (rs ! j) ''name'' =
              (if truthy (member (member (autos ! j) ''settings'') ''title'')
               then member (member (autos ! j) ''settings'') ''title''
               else member (autos ! j) ''create_time''))))"
proof (intro conjI impI)
  assume "fst (list_campaigns cfg up log) = Inr v"
  from list_campaigns_returns [OF this] obtain r data items camps rs where
    up: "up log (outbound cfg ''GET'' ''/campaigns'' None) = Response r" "json r = Some data"
      "py_get data ''campaigns'' (JArr []) = Inr items" "py_iter items = Inr camps"
    and loop: "campaigns_loop camps [] = Inr rs" and v: "v = JArr rs"
    by blast
  from campaigns_loop_returns [OF loop] have len: "length rs = length camps"
    and ent: "\<forall>j<length camps. campaign_entry (camps ! j) = Inr (rs ! j)"
    by auto
  have "member (rs ! j) ''name'' =
          (if truthy (member (member (camps ! j) ''settings'') ''title'')
           then member (member (camps ! j) ''settings'') ''title''
           else member (member (camps ! j) ''settings'') ''subject_line'')"
    if "j < length rs" for j
  proof -
    from that len ent have e: "campaign_entry (camps ! j) = Inr (rs ! j)" by simp
    from campaign_entry_object [OF campaign_entry_returns [OF e]] e show ?thesis by simp
  qed
  with up v len show "\<exists>r data items camps rs.
         up log (outbound cfg ''GET'' ''/campaigns'' None) = Response r \<and> json r = Some data \<and>
         py_get data ''campaigns'' (JArr []) = Inr items \<and> py_iter items = Inr camps \<and>
         v = JArr rs \<and> length rs = length camps \<and>
         (\<forall>j<length rs.
            member (rs ! j) ''name'' =
              (if truthy (member (member (camps ! j) ''settings'') ''title'')
               then member (member (camps ! j) ''settings'') ''title''
               else member (member (camps ! j) ''settings'') ''subject_line''))"
    by blast
next
  assume "fst (list_automations cfg up log) = Inr w"
  from list_automations_returns [OF this] obtain r data items autos rs where
    up: "up log (outbound cfg ''GET'' ''/automations'' None) = Response r" "json r = Some data"
      "py_get data ''automations'' (JArr []) = Inr items" "py_iter items = Inr autos"
    and loop: "automations_loop autos [] = Inr rs" and w: "w = JArr rs"
    by blast
  from automations_loop_returns [OF loop] have len: "length rs = length autos"
    and ent: "\<forall>j<length autos. automation_entry (autos ! j) = Inr (rs ! j)"
    by auto
  have "member (rs ! j) ''name'' =
          (if truthy (member (member (autos ! j) ''settings'') ''title'')
           then member (member (autos ! j) ''settings'') ''title''
           else member (autos ! j) ''create_time'')"
    if "j < length rs" for j
  proof -
    from that len ent have e: "automation_entry (autos ! j) = Inr (rs ! j)" by simp
    from automation_entry_returns [OF e] show ?thesis by simp
  qed
  with up w len show "\<exists>r data items autos rs.
         up log (outbound cfg ''GET'' ''/automations'' None) = Response r \<and> json r = Some data \<and>
         py_get data ''automations'' (JArr []) = Inr items \<and> py_iter items = Inr autos \<and>
         w = JArr rs \<and> length rs = length autos \<and>
         (\<forall>j<length rs.
            member (rs ! j) ''name'' =
              (if truthy (member (member (autos ! j) ''settings'') ''title'')
               then member (member (autos ! j) ''settings'') ''title''
               else member (autos ! j) ''create_time''))"
    by blast
qed

theorem record_names_witness:
  "fst (list_campaigns demo_config (answering campaigns_response) []) =
     Inr (JArr campaign_records) \<and>
   (\<exists>r data items camps rs.
      answering campaigns_response [] (outbound demo_config ''GET'' ''/campaigns'' None) =
        Response r \<and> json r = Some data \<and>
      py_get data ''campaigns'' (JArr []) = Inr items \<and> py_iter items = Inr camps \<and>
      JArr campaign_records = JArr rs \<and> length rs = length camps \<and>
      (\<forall>j<length rs.
         member (rs ! j) ''name'' =
           (if truthy (member (member (camps ! j) ''settings'') ''title'')
            then member (member (camps ! j) ''settings'') ''title''
            else member (member (camps ! j) ''settings'') ''subject_line''))) \<and>
   fst (list_automations demo_config (answering automations_response) []) =
     Inr (JArr automation_records) \<and>
   (\<exists>r data items autos rs.
      answering automations_response [] (outbound demo_config ''GET'' ''/automations'' None) =
        Response r \<and> json r = Some data \<and>
      py_get data ''automations'' (JArr []) = Inr items \<and> py_iter items = Inr autos \<and>
      JArr automation_records = JArr rs \<and> length rs = length autos \<and>
      (\<forall>j<length rs.
         member (rs ! j) ''name'' =
           (if truthy (member (member (autos ! j) ''settings'') ''title'')
            then member (member (autos ! j) ''settings'') ''title''
            else member (autos ! j) ''create_time'')))"
proof -
  have c: "fst (list_campaigns demo_config (answering campaigns_response) []) =
             Inr (JArr campaign_records)"
    by (simp add: campaigns_demo campaign_records_def)
  have a: "fst (list_automations demo_config (answering automations_response) []) =
             Inr (JArr automation_records)"
    by (simp add: automations_demo automation_records_def)
  note record_names [of demo_config "answering campaigns_response" "[]" "JArr campaign_records"
      JNull, THEN conjunct1, THEN mp, OF c]
    and record_names [of demo_config "answering automations_response" "[]" JNull
      "JArr automation_records", THEN conjunct2, THEN mp, OF a]
  with c a show ?thesis
    by (intro conjI)
qed

section \<open>Registry and Session\<close>

lemma register_all_module_tools: "register_all module_tools [] = Some module_tools"
  by (simp add: module_tools_def register_def)

lemma startup_eq:
  "startup = Some \<lparr>state = Uninitialized, tools = module_tools, http_log = []\<rparr>"
  by (simp add: startup_def register_all_module_tools)

lemma module_tool_names:
  "map name (map fst module_tools) =
     [''list_campaigns'', ''create_campaign'', ''send_campaign'', ''list_automations'',
      ''start_automation'']"
  by (simp add: module_tools_def)

text \<open>
  C6: the server starts with the registry of the five decorated functions; once the Session
  is initialized, \<open>tools/list\<close> answers with the descriptors of exactly the registered
  tools, each once, in the order of registration: \<open>list_campaigns\<close>, \<open>create_campaign\<close>,
  \<open>send_campaign\<close>, \<open>list_automations\<close>, \<open>start_automation\<close>.
\<close>

theorem tools_list_registration_order:
  "\<exists>srv0 srv ds.
     startup = Some srv0 \<and>
     handle cfg up (initialize_request i) srv0 = (Some (Result i Ack), srv) \<and>
     state srv = Ready \<and>
     handle cfg up (list_request j) srv = (Some (Result j (Tools ds)), srv) \<and>
     ds = map fst module_tools \<and>
     map name ds = [''list_campaigns'', ''create_campaign'', ''send_campaign'',
                    ''list_automations'', ''start_automation''] \<and>
     distinct (map name ds)"
proof -
  let ?fresh = "\<lparr>state = Uninitialized, tools = module_tools, http_log = []\<rparr>"
  let ?ready = "\<lparr>state = Ready, tools = module_tools, http_log = []\<rparr>"
  have "handle cfg up (initialize_request i) ?fresh = (Some (Result i Ack), ?ready)"
    by (simp add: handle_def initialize_request_def)
  moreover have "handle cfg up (list_request j) ?ready =
      (Some (Result j (Tools (map fst module_tools))), ?ready)"
    by (simp add: handle_def list_request_def list_tools_def)
  moreover have "distinct (map name (map fst module_tools))"
    by (simp add: module_tools_def)
  ultimately show ?thesis
    using startup_eq module_tool_names
    by (intro exI [of _ ?fresh] exI [of _ ?ready] exI [of _ "map fst module_tools"]) simp
qed

lemma tools_call_tools: "tools (snd (tools_call cfg up i ps srv)) = tools srv"
  by (auto simp: tools_call_def split: jvalue.splits option.splits prod.splits sum.splits)

lemma tools_call_state: "state (snd (tools_call cfg up i ps srv)) = state srv"
  by (auto simp: tools_call_def split: jvalue.splits option.splits prod.splits sum.splits)

lemma handle_tools: "tools (snd (handle cfg up req srv)) = tools srv"
  using tools_call_tools [of cfg up "rpc_id req" "rpc_params req" srv]
  by (auto simp: handle_def split: session_state.splits prod.splits)

lemma handle_ready: "state srv = Ready \<Longrightarrow> state (snd (handle cfg up req srv)) = Ready"
  using tools_call_state [of cfg up "rpc_id req" "rpc_params req" srv]
  by (auto simp: handle_def split: prod.splits)

text \<open>
  C7: on a Ready Session two \<open>tools/list\<close> requests in succession are answered with the
  same sequence of descriptors; and no request changes the registry of a Ready Session or
  takes the Session out of Ready.
\<close>

theorem tools_list_idempotent:
  assumes "state srv = Ready"
  shows "(\<exists>ds. handle cfg up (list_request i) srv = (Some (Result i (Tools ds)), srv) \<and>
              handle cfg up (list_request j) (snd (handle cfg up (list_request i) srv)) =
                (Some (Result j (Tools ds)), srv)) \<and>
         (\<forall>req. tools (snd (handle cfg up req srv)) = tools srv \<and>
                state (snd (handle cfg up req srv)) = Ready)"
proof -
  have "handle cfg up (list_request k) srv =
          (Some (Result k (Tools (list_tools (tools srv)))), srv)" for k
    using assms by (simp add: handle_def list_request_def)
  then show ?thesis
    using assms by (simp add: handle_tools handle_ready)
qed

theorem tools_list_idempotent_witness:
  "state ready_server = Ready \<and>
   handle demo_config (answering no_content) (list_request 2)
     (snd (handle demo_config (answering no_content) (list_request 1) ready_server)) =
     (Some (Result 2 (Tools (map fst module_tools))), ready_server) \<and>
   handle demo_config (answering no_content) (list_request 1) ready_server =
     (Some (Result 1 (Tools (map fst module_tools))), ready_server)"
proof -
  have r: "state ready_server = Ready"
    by (simp add: ready_server_def)
  have l: "handle demo_config (answering no_content) (list_request 1) ready_server =
     (Some (Result 1 (Tools (map fst module_tools))), ready_server)"
    by (simp add: handle_def list_request_def ready_server_def list_tools_def)
  from tools_list_idempotent [OF r, of demo_config "answering no_content" 1 2] l r
  show ?thesis by auto
qed

section \<open>The region of the endpoint\<close>

lemma length_split: "length (split sep s) = Suc (length (filter (\<lambda>c. c = sep) s))"
  by (induction s) (auto split: list.splits)

lemma split_without: "sep \<notin> set s \<Longrightarrow> split sep s = [s]"
  by (induction s) auto

lemma last_split: "sep \<notin> set suf \<Longrightarrow> last (split sep (pre @ sep # suf)) = suf"
proof (induction pre)
  case Nil
  then show ?case by (simp add: split_without)
next
  case (Cons c pre)
  have "length (split sep (pre @ sep # suf)) \<ge> 2"
    by (simp add: length_split)
  then obtain w v ws where "split sep (pre @ sep # suf) = w # v # ws"
    by (cases "split sep (pre @ sep # suf)"; cases "tl (split sep (pre @ sep # suf))") auto
  with Cons show ?case by auto
qed

text \<open>
  C8, as the code has it: when \<open>MAILCHIMP_DC\<close> is absent from the environment, or is the
  placeholder \<open><YOUR_DC>\<close>, and the API key of the environment contains \<open>-\<close>, the region
  of the base URL is the part of the key after its last \<open>-\<close>; a \<open>MAILCHIMP_DC\<close> other
  than the placeholder is used as it is.
\<close>

theorem region_of_environment:
  "((environ ''MAILCHIMP_DC'' = None \<or> environ ''MAILCHIMP_DC'' = Some ''<YOUR_DC>'') \<and>
    environ ''MAILCHIMP_API_KEY'' = Some (pre @ ''-'' @ suf) \<and> CHR ''-'' \<notin> set suf \<longrightarrow>
      MAILCHIMP_DC (load_config environ) = suf \<and>
      BASE_URL (load_config environ) = ''https://'' @ suf @ ''.api.mailchimp.com/3.0'') \<and>
   (environ ''MAILCHIMP_DC'' = Some dc \<and> dc \<noteq> ''<YOUR_DC>'' \<longrightarrow>
      MAILCHIMP_DC (load_config environ) = dc \<and>
      BASE_URL (load_config environ) = ''https://'' @ dc @ ''.api.mailchimp.com/3.0'')"
  using last_split [of "CHR ''-''" suf pre]
  by (auto simp: load_config_def environ_get_def BASE_URL_def Let_def)

theorem region_of_environment_witness:
  "demo_environ ''MAILCHIMP_DC'' = None \<and>
   demo_environ ''MAILCHIMP_API_KEY'' = Some (''0123abc'' @ ''-'' @ ''us21'') \<and>
   CHR ''-'' \<notin> set ''us21'' \<and>
   MAILCHIMP_DC (load_config demo_environ) = ''us21'' \<and>
   BASE_URL (load_config demo_environ) = ''https://us21.api.mailchimp.com/3.0'' \<and>
   explicit_environ ''MAILCHIMP_DC'' = Some ''us7'' \<and>
   MAILCHIMP_DC (load_config explicit_environ) = ''us7'' \<and>
   BASE_URL (load_config explicit_environ) = ''https://us7.api.mailchimp.com/3.0''"
  using region_of_environment [of demo_environ "''0123abc''" "''us21''" "''none''"]
        region_of_environment [of explicit_environ "''0123abc''" "''us21''" "''us7''"]
  by (simp add: demo_environ_def explicit_environ_def)

text \<open>
  A region supplied in the environment is not always used unchanged: the placeholder is
  replaced by the suffix of the key.
\<close>

theorem placeholder_region_replaced:
  "placeholder_environ ''MAILCHIMP_DC'' = Some ''<YOUR_DC>'' \<and>
   MAILCHIMP_DC (load_config placeholder_environ) = ''us21'' \<and>
   MAILCHIMP_DC (load_config placeholder_environ) \<noteq> ''<YOUR_DC>''"
  by (simp add: placeholder_environ_def load_config_def environ_get_def)

end
